theory Spec2Isabelle
  imports Main "HOL-Library.Word" "HOL-Library.Sublist" "HOL-Library.Option_ord"
begin

unbundle bit_operations_syntax

section \<open>Basic types\<close>

text \<open>
  A Go \<^verbatim>\<open>time.Time\<close> is an instant; it is modelled as the number of nanoseconds since
  1970-01-01 00:00:00 UTC.  Timestamps of the store are compared chronologically.
  A Go \<^verbatim>\<open>error\<close> is modelled by its message, because the callers inspect the message
  (\<^verbatim>\<open>strings.Contains(err.Error(), "rate limited")\<close>).
\<close>

type_synonym Time = int
type_synonym error = string

section \<open>The record store (package db)\<close>

record Project =
  ID :: nat
  RepoFullName :: string
  GitHubURL :: string
  Stars :: int
  Description :: string
  PrimaryLanguage :: string
  DockerfilePath :: string
  FileURL :: string
  SourceType :: string
  AdoptedAt :: "Time option"
  AdoptionCommit :: string
  FirstSeenAt :: Time
  LastSeenAt :: Time
  CreatedAt :: Time
  UpdatedAt :: Time

record RefreshJob =
  job_ID :: nat
  job_Status :: string
  job_StartedAt :: "Time option"
  job_CompletedAt :: "Time option"
  job_ProjectsFound :: int
  job_ErrorMessage :: string
  job_CreatedAt :: Time

record RefreshSnapshot =
  snap_ID :: nat
  snap_RecordedAt :: Time
  snap_TotalProjects :: int
  snap_TotalStars :: int
  snap_PopularCount :: int
  snap_NotableCount :: int

record NotificationConfig =
  cfg_ID :: nat
  cfg_Name :: string
  cfg_Type :: string
  cfg_Enabled :: bool
  cfg_ConfigJSON :: string
  cfg_LastTriggeredAt :: "Time option"
  cfg_CreatedAt :: Time
  cfg_UpdatedAt :: Time

record NotificationLog =
  log_ID :: nat
  log_ConfigID :: nat
  log_ProjectID :: "nat option"
  log_Status :: string
  log_ErrorMessage :: string
  log_SentAt :: Time

text \<open>
  The tables of \<^verbatim>\<open>Migrate\<close>, each as the list of its rows in insertion order, together
  with the \<^verbatim>\<open>AUTOINCREMENT\<close> counter of the tables the model inserts into.
\<close>

record DB =
  projects :: "Project list"
  projects_seq :: nat
  refresh_jobs :: "RefreshJob list"
  refresh_jobs_seq :: nat
  refresh_snapshots :: "RefreshSnapshot list"
  refresh_snapshots_seq :: nat
  notification_configs :: "NotificationConfig list"
  notification_logs :: "NotificationLog list"
  notification_logs_seq :: nat

text \<open>
  Every operation of the store takes the error the driver returns for the statement
  (\<open>None\<close> when the statement executes); a statement that fails leaves the store as it
  was.  \<open>now\<close> is the value of \<^verbatim>\<open>CURRENT_TIMESTAMP\<close>.
\<close>

subsection \<open>Project operations\<close>

text \<open>The \<^verbatim>\<open>DO UPDATE SET\<close> clause of \<^verbatim>\<open>UpsertProject\<close>, applied to the conflicting row.\<close>

definition on_conflict_update :: "Time \<Rightarrow> Project \<Rightarrow> Project \<Rightarrow> Project" where
  "on_conflict_update now excluded row =
     row\<lparr> Stars := Stars excluded,
          Description := Description excluded,
          PrimaryLanguage := PrimaryLanguage excluded,
          DockerfilePath := DockerfilePath excluded,
          FileURL := FileURL excluded,
          SourceType := SourceType excluded,
          AdoptedAt := (case AdoptedAt row of Some t \<Rightarrow> Some t | None \<Rightarrow> AdoptedAt excluded),
          LastSeenAt := now,
          UpdatedAt := now \<rparr>"

text \<open>The row that the \<^verbatim>\<open>INSERT\<close> of \<^verbatim>\<open>UpsertProject\<close> creates when there is no conflict.\<close>

definition inserted_project :: "nat \<Rightarrow> Time \<Rightarrow> Project \<Rightarrow> Project" where
  "inserted_project rowid now p =
     \<lparr> ID = rowid,
       RepoFullName = RepoFullName p,
       GitHubURL = GitHubURL p,
       Stars = Stars p,
       Description = Description p,
       PrimaryLanguage = PrimaryLanguage p,
       DockerfilePath = DockerfilePath p,
       FileURL = FileURL p,
       SourceType = SourceType p,
       AdoptedAt = AdoptedAt p,
       AdoptionCommit = [],
       FirstSeenAt = now,
       LastSeenAt = now,
       CreatedAt = now,
       UpdatedAt = now \<rparr>"

definition UpsertProject :: "error option \<Rightarrow> Time \<Rightarrow> Project \<Rightarrow> DB \<Rightarrow> error option \<times> DB" where
  "UpsertProject exec_err now p db =
     (case exec_err of
        Some e \<Rightarrow> (Some e, db)
      | None \<Rightarrow>
          if \<exists>row \<in> set (projects db). RepoFullName row = RepoFullName p
          then (None, db\<lparr> projects :=
                  map (\<lambda>row. if RepoFullName row = RepoFullName p
                              then on_conflict_update now p row else row) (projects db) \<rparr>)
          else (None, db\<lparr> projects :=
                  projects db @ [inserted_project (Suc (projects_seq db)) now p],
                  projects_seq := Suc (projects_seq db) \<rparr>))"

text \<open>
  \<^verbatim>\<open>ORDER BY adopted_at DESC\<close>: SQL leaves the order of rows with equal keys open; the
  model reverses a stable ascending sort.
\<close>

definition order_by_desc :: "('a \<Rightarrow> 'k::linorder) \<Rightarrow> 'a list \<Rightarrow> 'a list" where
  "order_by_desc key rows = rev (sort_key key rows)"

text \<open>The \<^verbatim>\<open>WHERE adopted_at IS NOT NULL AND adopted_at > ?\<close> clause.\<close>

definition adopted_after :: "Time \<Rightarrow> Project \<Rightarrow> bool" where
  "adopted_after since p = (case AdoptedAt p of None \<Rightarrow> False | Some t \<Rightarrow> t > since)"

definition GetNewProjectsSince :: "error option \<Rightarrow> Time \<Rightarrow> DB \<Rightarrow> error + Project list" where
  "GetNewProjectsSince exec_err since db =
     (case exec_err of
        Some e \<Rightarrow> Inl e
      | None \<Rightarrow> Inr (order_by_desc AdoptedAt (filter (adopted_after since) (projects db))))"

definition GetNewProjectsCount :: "error option \<Rightarrow> Time \<Rightarrow> DB \<Rightarrow> int \<times> error option" where
  "GetNewProjectsCount exec_err since db =
     (case exec_err of
        Some e \<Rightarrow> (0, Some e)
      | None \<Rightarrow> (int (length (filter (adopted_after since) (projects db))), None))"

definition GetProjectsWithoutAdoptionDate :: "error option \<Rightarrow> DB \<Rightarrow> error + Project list" where
  "GetProjectsWithoutAdoptionDate exec_err db =
     (case exec_err of
        Some e \<Rightarrow> Inl e
      | None \<Rightarrow> Inr (filter (\<lambda>p. AdoptedAt p = None) (projects db)))"

definition UpdateProjectAdoption ::
  "error option \<Rightarrow> Time \<Rightarrow> nat \<Rightarrow> Time \<Rightarrow> string \<Rightarrow> DB \<Rightarrow> error option \<times> DB" where
  "UpdateProjectAdoption exec_err now rowid adoptedAt commitURL db =
     (case exec_err of
        Some e \<Rightarrow> (Some e, db)
      | None \<Rightarrow> (None, db\<lparr> projects :=
          map (\<lambda>row. if ID row = rowid
                      then row\<lparr> AdoptedAt := Some adoptedAt, AdoptionCommit := commitURL,
                                UpdatedAt := now \<rparr>
                      else row) (projects db) \<rparr>))"

section \<open>Go's time and strconv packages\<close>

text \<open>
  The standard library is not part of the repository; the functions the code calls are
  modelled by what they compute.  The calendar is the proleptic Gregorian calendar in
  UTC: \<open>civil_from_days\<close> turns a day number (days since 1970-01-01) into year, month
  and day, and \<open>days_from_civil\<close> is its inverse.  Both count in 400-year eras that
  start on the first of March, so that a leap day is the last day of its year.
\<close>

definition civil_from_days :: "int \<Rightarrow> int \<times> int \<times> int" where
  "civil_from_days z =
     (let era = (z + 719468) div 146097;
          doe = (z + 719468) mod 146097;
          n100 = min 3 (doe div 36524);
          d1 = doe - 36524 * n100;
          n4 = d1 div 1461;
          d2 = d1 - 1461 * n4;
          n1 = min 3 (d2 div 365);
          doy = d2 - 365 * n1;
          y = 400 * era + 100 * n100 + 4 * n4 + n1;
          mp = (5 * doy + 2) div 153;
          d = doy - (153 * mp + 2) div 5 + 1;
          m = (if mp < 10 then mp + 3 else mp - 9)
      in (if m \<le> 2 then y + 1 else y, m, d))"

definition days_from_civil :: "int \<Rightarrow> int \<Rightarrow> int \<Rightarrow> int" where
  "days_from_civil y0 m d =
     (let y = (if m \<le> 2 then y0 - 1 else y0);
          era = y div 400;
          yoe = y mod 400;
          doy = (153 * (if m > 2 then m - 3 else m + 9) + 2) div 5 + d - 1;
          doe = yoe * 365 + yoe div 4 - yoe div 100 + doy
      in era * 146097 + doe - 719468)"

definition ns_per_second :: int where
  "ns_per_second = 1000000000"

definition ns_per_day :: int where
  "ns_per_day = 86400 * ns_per_second"

definition unix_day :: "Time \<Rightarrow> int" where
  "unix_day t = t div ns_per_day"

definition Year :: "Time \<Rightarrow> int" where
  "Year t = (case civil_from_days (unix_day t) of (y, m, d) \<Rightarrow> y)"

definition Month :: "Time \<Rightarrow> int" where
  "Month t = (case civil_from_days (unix_day t) of (y, m, d) \<Rightarrow> m)"

definition Day :: "Time \<Rightarrow> int" where
  "Day t = (case civil_from_days (unix_day t) of (y, m, d) \<Rightarrow> d)"

definition Hour_of :: "Time \<Rightarrow> int" where
  "Hour_of t = (t mod ns_per_day) div (3600 * ns_per_second)"

definition Minute_of :: "Time \<Rightarrow> int" where
  "Minute_of t = (t mod (3600 * ns_per_second)) div (60 * ns_per_second)"

definition Second_of :: "Time \<Rightarrow> int" where
  "Second_of t = (t mod (60 * ns_per_second)) div ns_per_second"

definition Nanosecond_of :: "Time \<Rightarrow> int" where
  "Nanosecond_of t = t mod ns_per_second"

text \<open>\<^verbatim>\<open>t.Weekday()\<close>: Sunday is 0; 1970-01-01 was a Thursday.\<close>

definition Weekday :: "Time \<Rightarrow> int" where
  "Weekday t = (unix_day t + 4) mod 7"

text \<open>
  \<^verbatim>\<open>time.Date(year, month, day, hour, min, sec, nsec, time.UTC)\<close>; a month outside
  1..12 and a day outside the month are normalised as Go does, by carrying over.
\<close>

definition Date :: "int \<Rightarrow> int \<Rightarrow> int \<Rightarrow> int \<Rightarrow> int \<Rightarrow> int \<Rightarrow> int \<Rightarrow> Time" where
  "Date year month day hour minute sec nsec =
     (let y = year + (month - 1) div 12;
          m = (month - 1) mod 12 + 1
      in (((days_from_civil y m day * 24 + hour) * 60 + minute) * 60 + sec) * ns_per_second
           + nsec)"

definition AddDate :: "Time \<Rightarrow> int \<Rightarrow> int \<Rightarrow> int \<Rightarrow> Time" where
  "AddDate t years months days =
     Date (Year t + years) (Month t + months) (Day t + days)
          (Hour_of t) (Minute_of t) (Second_of t) (Nanosecond_of t)"

text \<open>
  A \<^verbatim>\<open>time.Duration\<close> is an \<^verbatim>\<open>int64\<close> count of nanoseconds: a 64-bit word read as two's
  complement (\<open>sint\<close>), whose arithmetic wraps.
\<close>

type_synonym Duration = "64 word"

definition Second :: Duration where
  "Second = 1000000000"

definition Hour :: Duration where
  "Hour = 60 * (60 * Second)"

definition Add :: "Time \<Rightarrow> Duration \<Rightarrow> Time" where
  "Add t d = t + sint d"

text \<open>
  \<^verbatim>\<open>strconv.Atoi\<close> on a 64-bit platform: an optional sign, then one or more decimal
  digits, and the value must fit an \<^verbatim>\<open>int\<close>.  The error of the model is the message of
  the underlying \<^verbatim>\<open>ErrSyntax\<close> or \<^verbatim>\<open>ErrRange\<close>.
\<close>

definition is_digit :: "char \<Rightarrow> bool" where
  "is_digit c = (48 \<le> (of_char c :: int) \<and> (of_char c :: int) \<le> 57)"

definition digits_value :: "string \<Rightarrow> int" where
  "digits_value s = foldl (\<lambda>n c. n * 10 + (of_char c - 48)) 0 s"

definition Atoi :: "string \<Rightarrow> error + int" where
  "Atoi s =
     (let negative = (case s of [] \<Rightarrow> False | c # _ \<Rightarrow> c = CHR ''-'');
          body = (case s of [] \<Rightarrow> []
                  | c # rest \<Rightarrow> if c = CHR ''-'' \<or> c = CHR ''+'' then rest else s)
      in if body = [] \<or> \<not> list_all is_digit body then Inl ''invalid syntax''
         else let n = digits_value body;
                  v = (if negative then - n else n)
              in if v < - (2 ^ 63) \<or> 2 ^ 63 - 1 < v then Inl ''value out of range''
                 else Inr v)"

section \<open>The window lookup (package api)\<close>

definition startOfWeek :: "Time \<Rightarrow> Time" where
  "startOfWeek t =
     (let weekday = Weekday t;
          weekday = (if weekday = 0 then 7 else weekday);
          monday = AddDate t 0 0 (- (weekday - 1))
      in Date (Year monday) (Month monday) (Day monday) 0 0 0 0)"

definition parseDuration :: "string \<Rightarrow> error + Duration" where
  "parseDuration s =
     (if length s < 2 then Inl (''invalid duration: '' @ s)
      else let unit = last s;
               valueStr = butlast s
           in case Atoi valueStr of
                Inl _ \<Rightarrow> Inl (''invalid duration value: '' @ s)
              | Inr v \<Rightarrow>
                  if unit = CHR ''d'' then Inr (word_of_int v * 24 * Hour)
                  else if unit = CHR ''w'' then Inr (word_of_int v * 7 * 24 * Hour)
                  else if unit = CHR ''h'' then Inr (word_of_int v * Hour)
                  else Inl (''invalid duration unit: '' @ [unit] @ '' (use h, d, or w)''))"

text \<open>What a handler writes: an error status with its text, or a JSON body.\<close>

datatype 'a http_reply = HttpError nat string | HttpJSON 'a

text \<open>
  \<^verbatim>\<open>handleNewProjects\<close>, as a function of the request method, the \<^verbatim>\<open>since\<close> query
  parameter, the clock (\<^verbatim>\<open>time.Now()\<close>) and the store.
\<close>

definition handleNewProjects ::
  "string \<Rightarrow> string \<Rightarrow> Time \<Rightarrow> error option \<Rightarrow> DB \<Rightarrow> Project list http_reply" where
  "handleNewProjects method since_param now exec_err db =
     (if method \<noteq> ''GET'' then HttpError 405 ''Method not allowed''
      else
        let sinceStr = (if since_param = [] then ''thisweek'' else since_param);
            since = (if sinceStr = ''thisweek'' then Inr (startOfWeek now)
                     else case parseDuration sinceStr of
                            Inl e \<Rightarrow> Inl e
                          | Inr duration \<Rightarrow> Inr (Add now (- duration)))
        in case since of
             Inl _ \<Rightarrow>
               HttpError 400 ''Invalid since parameter''
           | Inr cutoff \<Rightarrow>
               (case GetNewProjectsSince exec_err cutoff db of
                  Inl _ \<Rightarrow> HttpError 500 ''Internal server error''
                | Inr ps \<Rightarrow> HttpJSON ps))"

text \<open>The stored records whose adoption timestamp is non-null and strictly later than a cutoff.\<close>

definition adopted_strictly_after :: "Time \<Rightarrow> DB \<Rightarrow> Project set" where
  "adopted_strictly_after cutoff db =
     {p \<in> set (projects db). \<exists>t. AdoptedAt p = Some t \<and> cutoff < t}"

section \<open>Concrete data used to exercise the theorems\<close>

definition empty_db :: DB where
  "empty_db = \<lparr> projects = [], projects_seq = 0, refresh_jobs = [], refresh_jobs_seq = 0,
     refresh_snapshots = [], refresh_snapshots_seq = 0, notification_configs = [],
     notification_logs = [], notification_logs_seq = 0 \<rparr>"

definition stored_row :: Project where
  "stored_row = \<lparr> ID = 1, RepoFullName = ''acme/app'',
     GitHubURL = ''https://github.com/acme/app'', Stars = 10, Description = ''old'',
     PrimaryLanguage = ''Go'', DockerfilePath = ''Dockerfile'', FileURL = ''u1'',
     SourceType = ''dockerfile'', AdoptedAt = Some 50, AdoptionCommit = ''c1'',
     FirstSeenAt = 100, LastSeenAt = 100, CreatedAt = 100, UpdatedAt = 100 \<rparr>"

definition rescanned :: Project where
  "rescanned = \<lparr> ID = 0, RepoFullName = ''acme/app'',
     GitHubURL = ''https://github.com/acme/app'', Stars = 12, Description = ''new'',
     PrimaryLanguage = ''Rust'', DockerfilePath = ''docker/Dockerfile'', FileURL = ''u2'',
     SourceType = ''compose'', AdoptedAt = Some 70, AdoptionCommit = [],
     FirstSeenAt = 0, LastSeenAt = 0, CreatedAt = 0, UpdatedAt = 0 \<rparr>"

definition monday_row :: Project where
  "monday_row = stored_row\<lparr> ID := 2, RepoFullName := ''acme/lib'',
     AdoptedAt := Some 1705276800000000000 \<rparr>"

definition pending_row :: Project where
  "pending_row = stored_row\<lparr> ID := 3, RepoFullName := ''acme/cli'', AdoptedAt := None,
     FirstSeenAt := 1705363200000000000 \<rparr>"

definition later_row :: Project where
  "later_row = stored_row\<lparr> ID := 4, RepoFullName := ''acme/web'',
     AdoptedAt := Some 1705276800000000001 \<rparr>"

definition jan01_row :: Project where
  "jan01_row = stored_row\<lparr> ID := 1, RepoFullName := ''acme/one'',
     AdoptedAt := Some (Date 2024 1 1 0 0 0 0) \<rparr>"

definition jan08_row :: Project where
  "jan08_row = stored_row\<lparr> ID := 2, RepoFullName := ''acme/two'',
     AdoptedAt := Some (Date 2024 1 8 0 0 0 0) \<rparr>"

definition jan15_row :: Project where
  "jan15_row = stored_row\<lparr> ID := 3, RepoFullName := ''acme/three'',
     AdoptedAt := Some (Date 2024 1 15 0 0 0 0) \<rparr>"

definition january_db :: DB where
  "january_db = empty_db\<lparr> projects := [jan01_row, jan08_row, jan15_row] \<rparr>"

definition future_row :: Project where
  "future_row = stored_row\<lparr> ID := 4, RepoFullName := ''acme/four'',
     AdoptedAt := Some (Date 2024 1 17 0 0 0 0) \<rparr>"

section \<open>Properties of the store\<close>

lemma set_order_by_desc: "set (order_by_desc key rows) = set rows"
  by (simp add: order_by_desc_def)

lemma length_order_by_desc: "length (order_by_desc key rows) = length rows"
  by (simp add: order_by_desc_def)

lemma upsert_conflict_projects:
  assumes "i < length (projects db)"
    and "RepoFullName (projects db ! i) = RepoFullName p"
  shows "UpsertProject None now p db =
           (None, db\<lparr> projects :=
                  map (\<lambda>row. if RepoFullName row = RepoFullName p
                              then on_conflict_update now p row else row) (projects db) \<rparr>)"
proof -
  have "projects db ! i \<in> set (projects db)"
    using assms(1) by simp
  then have "\<exists>row \<in> set (projects db). RepoFullName row = RepoFullName p"
    using assms(2) by blast
  then show ?thesis
    by (simp add: UpsertProject_def)
qed

text \<open>
  Claim C1.  When the store already holds a row with the repository full name of the
  project being upserted, the upsert keeps the number of rows, keeps the row's id, and
  overwrites stars, description, primary language, dockerfile path, file URL and source
  type with the values of the new scan; the adoption timestamp of the row is its old
  value when that is non-null (whatever candidate the new scan carries) and the
  candidate only when the old value is null.
\<close>

theorem upsert_existing_overwrites_but_keeps_adoption:
  assumes "i < length (projects db)"
    and "RepoFullName (projects db ! i) = RepoFullName p"
  shows "\<exists>db'. UpsertProject None now p db = (None, db')
           \<and> length (projects db') = length (projects db)
           \<and> ID (projects db' ! i) = ID (projects db ! i)
           \<and> RepoFullName (projects db' ! i) = RepoFullName p
           \<and> Stars (projects db' ! i) = Stars p
           \<and> Description (projects db' ! i) = Description p
           \<and> PrimaryLanguage (projects db' ! i) = PrimaryLanguage p
           \<and> DockerfilePath (projects db' ! i) = DockerfilePath p
           \<and> FileURL (projects db' ! i) = FileURL p
           \<and> SourceType (projects db' ! i) = SourceType p
           \<and> AdoptedAt (projects db' ! i) =
               (case AdoptedAt (projects db ! i) of
                  Some t \<Rightarrow> Some t
                | None \<Rightarrow> AdoptedAt p)"
  using assms
  by (simp add: upsert_conflict_projects [OF assms] on_conflict_update_def)

theorem upsert_existing_overwrites_but_keeps_adoption_witness:
  "0 < length (projects (empty_db\<lparr>projects := [stored_row]\<rparr>))
   \<and> RepoFullName (projects (empty_db\<lparr>projects := [stored_row]\<rparr>) ! 0) = RepoFullName rescanned
   \<and> AdoptedAt rescanned = Some 70
   \<and> (\<exists>db'. UpsertProject None 200 rescanned (empty_db\<lparr>projects := [stored_row]\<rparr>) = (None, db')
        \<and> Stars (projects db' ! 0) = 12
        \<and> AdoptedAt (projects db' ! 0) = Some 50)"
  using upsert_existing_overwrites_but_keeps_adoption
          [of 0 "empty_db\<lparr>projects := [stored_row]\<rparr>" rescanned 200]
  by (auto simp add: stored_row_def rescanned_def empty_db_def)

lemma filter_removeAll_irrelevant: "\<not> P x \<Longrightarrow> filter P (removeAll x xs) = filter P xs"
  by (induction xs) auto

text \<open>
  Claim C10.  The lookup and the count of new records compare strictly with the cutoff:
  for every cutoff, a stored record whose adoption timestamp is null or is exactly the
  cutoff is in no result of the lookup, and the count is what it would be without that
  record; the time the record was first observed plays no role.
\<close>

theorem cutoff_is_strict_and_null_is_excluded:
  assumes "p \<in> set (projects db)"
    and "AdoptedAt p = None \<or> AdoptedAt p = Some since"
  shows "(\<forall>ps. GetNewProjectsSince exec_err since db = Inr ps \<longrightarrow> p \<notin> set ps)
       \<and> fst (GetNewProjectsCount exec_err since db)
           = fst (GetNewProjectsCount exec_err since
                    (db\<lparr>projects := removeAll p (projects db)\<rparr>))"
proof -
  have no: "\<not> adopted_after since p"
    using assms(2) by (auto simp add: adopted_after_def)
  have "p \<notin> set (order_by_desc AdoptedAt (filter (adopted_after since) (projects db)))"
    using no by (simp add: set_order_by_desc)
  then have first: "\<forall>ps. GetNewProjectsSince exec_err since db = Inr ps \<longrightarrow> p \<notin> set ps"
    by (auto simp add: GetNewProjectsSince_def split: option.splits)
  have second: "fst (GetNewProjectsCount exec_err since db)
           = fst (GetNewProjectsCount exec_err since
                    (db\<lparr>projects := removeAll p (projects db)\<rparr>))"
    using no
    by (simp add: GetNewProjectsCount_def filter_removeAll_irrelevant split: option.splits)
  from first second show ?thesis by blast
qed

theorem cutoff_is_strict_and_null_is_excluded_witness:
  "monday_row \<in> set (projects (empty_db\<lparr>projects := [monday_row, pending_row, later_row]\<rparr>))
   \<and> AdoptedAt monday_row = Some 1705276800000000000
   \<and> GetNewProjectsSince None 1705276800000000000
        (empty_db\<lparr>projects := [monday_row, pending_row, later_row]\<rparr>) = Inr [later_row]
   \<and> monday_row \<notin> set [later_row]
   \<and> fst (GetNewProjectsCount None 1705276800000000000
        (empty_db\<lparr>projects := [monday_row, pending_row, later_row]\<rparr>)) = 1
   \<and> fst (GetNewProjectsCount None 1705276800000000000
        (empty_db\<lparr>projects := [pending_row, later_row]\<rparr>)) = 1"
  using cutoff_is_strict_and_null_is_excluded
          [of monday_row "empty_db\<lparr>projects := [monday_row, pending_row, later_row]\<rparr>"
              1705276800000000000 None]
  by (simp add: GetNewProjectsSince_def GetNewProjectsCount_def adopted_after_def
        order_by_desc_def monday_row_def pending_row_def later_row_def stored_row_def
        empty_db_def)

section \<open>The calendar\<close>

lemma civil_from_days_inverse:
  "(case civil_from_days z of (y, m, d) \<Rightarrow> 1 \<le> m \<and> m \<le> 12 \<and> days_from_civil y m d = z)"
proof -
  define era where "era = (z + 719468) div 146097"
  define doe where "doe = (z + 719468) mod 146097"
  define n100 where "n100 = min 3 (doe div 36524)"
  define d1 where "d1 = doe - 36524 * n100"
  define n4 where "n4 = d1 div 1461"
  define d2 where "d2 = d1 - 1461 * n4"
  define n1 where "n1 = min 3 (d2 div 365)"
  define doy where "doy = d2 - 365 * n1"
  define yoe where "yoe = 100 * n100 + 4 * n4 + n1"
  define mp where "mp = (5 * doy + 2) div 153"
  define d where "d = doy - (153 * mp + 2) div 5 + 1"
  define m where "m = (if mp < 10 then mp + 3 else mp - 9)"
  define y where "y = 400 * era + yoe"
  have z: "z + 719468 = 146097 * era + doe"
    unfolding era_def doe_def by simp
  have doe: "0 \<le> doe" "doe \<le> 146096"
    unfolding doe_def by simp_all
  have n100: "0 \<le> n100" "n100 \<le> 3"
    using doe unfolding n100_def by simp_all
  have d1: "0 \<le> d1" "d1 \<le> 36524"
    using doe unfolding d1_def n100_def by linarith+
  have n4: "0 \<le> n4" "n4 \<le> 24"
    using d1 unfolding n4_def by linarith+
  have d2: "0 \<le> d2" "d2 \<le> 1460"
    using d1 unfolding d2_def n4_def by linarith+
  have n1: "0 \<le> n1" "n1 \<le> 3"
    using d2 unfolding n1_def by simp_all
  have doy: "0 \<le> doy" "doy \<le> 365"
    using d2 unfolding doy_def n1_def by linarith+
  have mp: "0 \<le> mp" "mp \<le> 11"
    using doy unfolding mp_def by linarith+
  have m: "1 \<le> m" "m \<le> 12" "(m \<le> 2) = (10 \<le> mp)"
    "(if m > 2 then m - 3 else m + 9) = mp"
    using mp unfolding m_def by auto
  have yoe: "0 \<le> yoe" "yoe \<le> 399"
    using n100 n4 n1 unfolding yoe_def by linarith+
  have ydiv: "y div 400 = era" "y mod 400 = yoe"
    using yoe unfolding y_def by (simp_all add: div_pos_pos_trivial)
  have yoe4: "yoe div 4 = 25 * n100 + n4"
    using n1 unfolding yoe_def by linarith
  have yoe100: "yoe div 100 = n100"
    using n1 n4 unfolding yoe_def by linarith
  have civ: "civil_from_days z = (if m \<le> 2 then y + 1 else y, m, d)"
    unfolding civil_from_days_def Let_def
    by (simp only: era_def [symmetric] doe_def [symmetric] n100_def [symmetric]
          d1_def [symmetric] n4_def [symmetric] d2_def [symmetric] n1_def [symmetric]
          doy_def [symmetric] mp_def [symmetric] d_def [symmetric] m_def [symmetric])
       (simp add: y_def yoe_def)
  have "days_from_civil (if m \<le> 2 then y + 1 else y) m d
          = era * 146097
            + (yoe * 365 + yoe div 4 - yoe div 100 + ((153 * mp + 2) div 5 + d - 1)) - 719468"
    unfolding days_from_civil_def Let_def using m ydiv by (simp split: if_splits)
  also have "\<dots> = z"
    using z yoe4 yoe100 yoe_def d_def doy_def d2_def d1_def by linarith
  finally show ?thesis
    using m(1,2) by (simp add: civ)
qed

lemma days_from_civil_add_days: "days_from_civil y m (d + k) = days_from_civil y m d + k"
  by (simp add: days_from_civil_def Let_def)

lemma Date_of_civil:
  "Date (Year t) (Month t) (Day t + k) h mi s ns
     = ((((unix_day t + k) * 24 + h) * 60 + mi) * 60 + s) * ns_per_second + ns"
proof -
  obtain y m d where c: "civil_from_days (unix_day t) = (y, m, d)"
    by (cases "civil_from_days (unix_day t)") auto
  have inv: "1 \<le> m" "m \<le> 12" "days_from_civil y m d = unix_day t"
    using civil_from_days_inverse [of "unix_day t"] by (simp_all add: c)
  have norm: "(m - 1) div 12 = 0" "(m - 1) mod 12 + 1 = m"
    using inv(1,2) by simp_all
  show ?thesis
    by (simp add: Date_def Year_def Month_def Day_def c norm Let_def
          days_from_civil_add_days inv(3))
qed

lemma mod_split_by_divisor:
  fixes a :: int
  assumes "c dvd b"
  shows "a mod b = c * ((a mod b) div c) + a mod c"
  using mult_div_mod_eq [of c "a mod b"] assms by (simp add: mod_mod_cancel)

lemma clock_recomposed:
  "((Hour_of t * 60 + Minute_of t) * 60 + Second_of t) * ns_per_second + Nanosecond_of t
     = t mod ns_per_day"
proof -
  have a: "t mod 86400000000000 = 3600000000000 * ((t mod 86400000000000) div 3600000000000)
             + t mod 3600000000000"
    by (rule mod_split_by_divisor) simp
  have b: "t mod 3600000000000 = 60000000000 * ((t mod 3600000000000) div 60000000000)
             + t mod 60000000000"
    by (rule mod_split_by_divisor) simp
  have c: "t mod 60000000000 = 1000000000 * ((t mod 60000000000) div 1000000000)
             + t mod 1000000000"
    by (rule mod_split_by_divisor) simp
  show ?thesis
    unfolding Hour_of_def Minute_of_def Second_of_def Nanosecond_of_def ns_per_day_def
      ns_per_second_def
    using a b c by simp
qed

lemma AddDate_days: "AddDate t 0 0 k = t + k * ns_per_day"
proof -
  have "AddDate t 0 0 k
          = ((((unix_day t + k) * 24 + Hour_of t) * 60 + Minute_of t) * 60 + Second_of t)
              * ns_per_second + Nanosecond_of t"
    by (simp only: AddDate_def add_0_right Date_of_civil)
  also have "\<dots> = (unix_day t + k) * ns_per_day
            + (((Hour_of t * 60 + Minute_of t) * 60 + Second_of t) * ns_per_second
               + Nanosecond_of t)"
    by (simp add: ns_per_day_def algebra_simps)
  also have "\<dots> = (unix_day t + k) * ns_per_day + t mod ns_per_day"
    by (simp only: clock_recomposed)
  also have "\<dots> = t + k * ns_per_day"
    by (simp add: unix_day_def algebra_simps)
  finally show ?thesis .
qed

lemma midnight_of_day:
  "Date (Year t) (Month t) (Day t) 0 0 0 0 = unix_day t * ns_per_day"
  using Date_of_civil [of t 0 0 0 0 0] by (simp add: ns_per_day_def)

lemma weekday_offset:
  fixes D :: int
  shows "(if (D + 4) mod 7 = 0 then 7 else (D + 4) mod 7) - 1 = (D + 3) mod 7"
proof -
  define q where "q = (D + 4) div 7"
  define w where "w = (D + 4) mod 7"
  have w: "0 \<le> w" "w < 7"
    unfolding w_def by simp_all
  have "D + 4 = 7 * q + w"
    unfolding q_def w_def by simp
  then have "D + 3 = 7 * q + (w - 1)"
    by simp
  then have m: "(D + 3) mod 7 = (w - 1) mod 7"
    by (simp only: mod_mult_self4)
  show ?thesis
  proof (cases "w = 0")
    case True
    then show ?thesis
      using m by (simp add: w_def [symmetric])
  next
    case False
    then have "0 \<le> w - 1" "w - 1 < 7"
      using w by simp_all
    then have "(w - 1) mod 7 = w - 1"
      by simp
    then show ?thesis
      using m False by (simp add: w_def [symmetric])
  qed
qed

lemma startOfWeek_eq:
  "startOfWeek t = (unix_day t - ((unix_day t + 3) mod 7)) * ns_per_day"
proof -
  define wd where "wd = (if Weekday t = 0 then 7 else Weekday t)"
  have wd: "wd - 1 = (unix_day t + 3) mod 7"
    unfolding wd_def Weekday_def by (rule weekday_offset)
  have pos: "(0::int) < ns_per_day"
    by (simp add: ns_per_day_def ns_per_second_def)
  have "unix_day (t + (- (wd - 1)) * ns_per_day) = unix_day t - (wd - 1)"
    using pos by (simp add: unix_day_def)
  then have "startOfWeek t = (unix_day t - (wd - 1)) * ns_per_day"
    by (simp add: startOfWeek_def Let_def wd_def [symmetric] AddDate_days midnight_of_day)
  then show ?thesis
    by (simp only: wd)
qed

text \<open>
  \<open>startOfWeek\<close> is the Monday 00:00 UTC of the week of its argument, a week running from
  Monday to Sunday: it is a midnight, it is a Monday, and the argument lies in the seven
  days that begin there.
\<close>

lemma startOfWeek_is_monday_midnight:
  "startOfWeek t mod ns_per_day = 0"
  "Weekday (startOfWeek t) = 1"
  "startOfWeek t \<le> t"
  "t < startOfWeek t + 7 * ns_per_day"
proof -
  have pos: "(0::int) < ns_per_day"
    by (simp add: ns_per_day_def ns_per_second_def)
  define D where "D = unix_day t"
  define r where "r = (D + 3) mod 7"
  have r: "0 \<le> r" "r < 7"
    unfolding r_def by simp_all
  have s: "startOfWeek t = (D - r) * ns_per_day"
    by (simp add: startOfWeek_eq D_def r_def)
  show "startOfWeek t mod ns_per_day = 0"
    by (simp add: s)
  have "unix_day (startOfWeek t) = D - r"
    using pos by (simp add: s unix_day_def)
  then show "Weekday (startOfWeek t) = 1"
    unfolding Weekday_def r_def by presburger
  have t: "D * ns_per_day \<le> t" "t < D * ns_per_day + ns_per_day"
  proof -
    have "t = D * ns_per_day + t mod ns_per_day"
      by (simp add: D_def unix_day_def)
    moreover have "0 \<le> t mod ns_per_day" "t mod ns_per_day < ns_per_day"
      using pos by simp_all
    ultimately show "D * ns_per_day \<le> t" "t < D * ns_per_day + ns_per_day"
      by linarith+
  qed
  have "(D - r) * ns_per_day \<le> D * ns_per_day"
    using r(1) pos by (simp add: mult_right_mono)
  then show "startOfWeek t \<le> t"
    using t(1) s by linarith
  have "D * ns_per_day + ns_per_day \<le> (D - r) * ns_per_day + 7 * ns_per_day"
  proof -
    have "(D + 1) * ns_per_day \<le> (D - r + 7) * ns_per_day"
      using r(2) pos by (intro mult_right_mono) simp_all
    then show ?thesis
      by (simp add: algebra_simps)
  qed
  then show "t < startOfWeek t + 7 * ns_per_day"
    using t(2) s by linarith
qed

section \<open>The window lookup\<close>

lemma sint_duration:
  "- (2 ^ 63) \<le> x \<Longrightarrow> x < 2 ^ 63 \<Longrightarrow> sint (word_of_int x :: Duration) = x"
  by (simp add: sint_sbintrunc' signed_take_bit_int_eq_self)

lemma Atoi_nonempty: "Atoi v = Inr n \<Longrightarrow> v \<noteq> []"
  by (auto simp add: Atoi_def)

lemma parseDuration_unit:
  assumes "Atoi v = Inr n"
  shows "parseDuration (v @ ''d'') = Inr (word_of_int n * 24 * Hour)"
    and "parseDuration (v @ ''w'') = Inr (word_of_int n * 7 * 24 * Hour)"
    and "parseDuration (v @ ''h'') = Inr (word_of_int n * Hour)"
  using assms Atoi_nonempty [OF assms]
  by (simp_all add: parseDuration_def Let_def Suc_le_eq not_less)

lemma set_GetNewProjectsSince:
  "\<exists>ps. GetNewProjectsSince None cutoff db = Inr ps \<and> set ps = adopted_strictly_after cutoff db"
  by (auto simp add: GetNewProjectsSince_def set_order_by_desc adopted_strictly_after_def
        adopted_after_def split: option.splits)

lemma handleNewProjects_thisweek:
  "\<exists>ps. handleNewProjects ''GET'' ''thisweek'' now None db = HttpJSON ps
        \<and> set ps = adopted_strictly_after (startOfWeek now) db"
  using set_GetNewProjectsSince [of "startOfWeek now" db]
  by (auto simp add: handleNewProjects_def)

lemma parseDuration_not_thisweek: "parseDuration ''thisweek'' \<noteq> Inr d"
  by (simp add: parseDuration_def Let_def split: sum.splits)

lemma parseDuration_not_empty: "parseDuration [] \<noteq> Inr d"
  by (simp add: parseDuration_def)

lemma handleNewProjects_duration:
  assumes "parseDuration s = Inr (word_of_int x)"
    and "- (2 ^ 63) < x" and "x < 2 ^ 63"
  shows "\<exists>ps. handleNewProjects ''GET'' s now None db = HttpJSON ps
        \<and> set ps = adopted_strictly_after (now - x) db"
proof -
  have ne: "s \<noteq> []" "s \<noteq> ''thisweek''"
    using assms(1) parseDuration_not_thisweek parseDuration_not_empty by auto
  have neg: "- (word_of_int x :: Duration) = word_of_int (- x)"
    by simp
  have "sint (word_of_int (- x) :: Duration) = - x"
    using assms(2,3) by (intro sint_duration) simp_all
  then have cutoff: "Add now (- (word_of_int x :: Duration)) = now - x"
    by (simp only: Add_def neg)
  show ?thesis
    using set_GetNewProjectsSince [of "now - x" db] ne
    by (auto simp add: handleNewProjects_def assms(1) cutoff)
qed

lemma Hour_eq: "Hour = word_of_int 3600000000000"
  by (simp add: Hour_def Second_def)

text \<open>
  Claim C7, as amended.  The lookup for \<^verbatim>\<open>thisweek\<close> returns exactly the stored records
  whose adoption timestamp is strictly later than \<open>startOfWeek now\<close>, which is the Monday
  00:00 UTC that begins the week of \<open>now\<close> (a midnight, a Monday, at most \<open>now\<close> and less
  than seven days before it, so that a Sunday belongs to the week of the Monday six days
  earlier); the query has no upper bound at \<open>now\<close>.  For a decimal \<open>N\<close> followed by
  \<^verbatim>\<open>d\<close>, \<^verbatim>\<open>w\<close> or \<^verbatim>\<open>h\<close>, the lookup returns exactly the records adopted strictly
  after \<open>now\<close> minus \<open>N\<close> days, weeks or hours, provided that span fits a 64-bit count of
  nanoseconds.
\<close>

theorem new_projects_window:
  "(\<exists>ps. handleNewProjects ''GET'' ''thisweek'' now None db = HttpJSON ps
         \<and> set ps = adopted_strictly_after (startOfWeek now) db)
   \<and> startOfWeek now mod ns_per_day = 0
   \<and> Weekday (startOfWeek now) = 1
   \<and> startOfWeek now \<le> now
   \<and> now < startOfWeek now + 7 * ns_per_day
   \<and> (Atoi v = Inr n \<longrightarrow>
        (- (2 ^ 63) < n * ns_per_day \<and> n * ns_per_day < 2 ^ 63 \<longrightarrow>
           (\<exists>ps. handleNewProjects ''GET'' (v @ ''d'') now None db = HttpJSON ps
                 \<and> set ps = adopted_strictly_after (now - n * ns_per_day) db))
      \<and> (- (2 ^ 63) < n * (7 * ns_per_day) \<and> n * (7 * ns_per_day) < 2 ^ 63 \<longrightarrow>
           (\<exists>ps. handleNewProjects ''GET'' (v @ ''w'') now None db = HttpJSON ps
                 \<and> set ps = adopted_strictly_after (now - n * (7 * ns_per_day)) db))
      \<and> (- (2 ^ 63) < n * (3600 * ns_per_second) \<and> n * (3600 * ns_per_second) < 2 ^ 63 \<longrightarrow>
           (\<exists>ps. handleNewProjects ''GET'' (v @ ''h'') now None db = HttpJSON ps
                 \<and> set ps = adopted_strictly_after (now - n * (3600 * ns_per_second)) db)))"
proof -
  have week: "\<exists>ps. handleNewProjects ''GET'' ''thisweek'' now None db = HttpJSON ps
         \<and> set ps = adopted_strictly_after (startOfWeek now) db"
    by (rule handleNewProjects_thisweek)
  have durations:
    "(- (2 ^ 63) < n * ns_per_day \<and> n * ns_per_day < 2 ^ 63 \<longrightarrow>
           (\<exists>ps. handleNewProjects ''GET'' (v @ ''d'') now None db = HttpJSON ps
                 \<and> set ps = adopted_strictly_after (now - n * ns_per_day) db))
      \<and> (- (2 ^ 63) < n * (7 * ns_per_day) \<and> n * (7 * ns_per_day) < 2 ^ 63 \<longrightarrow>
           (\<exists>ps. handleNewProjects ''GET'' (v @ ''w'') now None db = HttpJSON ps
                 \<and> set ps = adopted_strictly_after (now - n * (7 * ns_per_day)) db))
      \<and> (- (2 ^ 63) < n * (3600 * ns_per_second) \<and> n * (3600 * ns_per_second) < 2 ^ 63 \<longrightarrow>
           (\<exists>ps. handleNewProjects ''GET'' (v @ ''h'') now None db = HttpJSON ps
                 \<and> set ps = adopted_strictly_after (now - n * (3600 * ns_per_second)) db))"
    if a: "Atoi v = Inr n"
  proof -
    have d: "parseDuration (v @ ''d'') = Inr (word_of_int (n * ns_per_day))"
      by (simp add: parseDuration_unit(1) [OF a] Hour_eq ns_per_day_def ns_per_second_def)
    have w: "parseDuration (v @ ''w'') = Inr (word_of_int (n * (7 * ns_per_day)))"
      by (simp add: parseDuration_unit(2) [OF a] Hour_eq ns_per_day_def ns_per_second_def)
    have h: "parseDuration (v @ ''h'') = Inr (word_of_int (n * (3600 * ns_per_second)))"
      by (simp add: parseDuration_unit(3) [OF a] Hour_eq ns_per_second_def)
    show ?thesis
      using handleNewProjects_duration [OF d, of now db]
        handleNewProjects_duration [OF w, of now db]
        handleNewProjects_duration [OF h, of now db]
      by blast
  qed
  show ?thesis
    using week startOfWeek_is_monday_midnight [of now] durations by blast
qed

theorem new_projects_window_witness:
  "Atoi ''7'' = Inr 7
   \<and> - (2 ^ 63) < 7 * ns_per_day \<and> 7 * ns_per_day < 2 ^ 63
   \<and> Weekday (Date 2024 1 16 0 0 0 0) = 2
   \<and> startOfWeek (Date 2024 1 16 0 0 0 0) = Date 2024 1 15 0 0 0 0
   \<and> Date 2024 1 16 0 0 0 0 - 7 * ns_per_day = Date 2024 1 9 0 0 0 0
   \<and> (\<exists>ps. handleNewProjects ''GET'' ''7d'' (Date 2024 1 16 0 0 0 0) None january_db
              = HttpJSON ps
           \<and> set ps = adopted_strictly_after (Date 2024 1 9 0 0 0 0) january_db)
   \<and> handleNewProjects ''GET'' ''7d'' (Date 2024 1 16 0 0 0 0) None january_db
        = HttpJSON [jan15_row]
   \<and> (\<exists>ps. handleNewProjects ''GET'' ''thisweek'' (Date 2024 1 16 0 0 0 0) None january_db
              = HttpJSON ps
           \<and> set ps = adopted_strictly_after (Date 2024 1 15 0 0 0 0) january_db)
   \<and> handleNewProjects ''GET'' ''thisweek'' (Date 2024 1 16 0 0 0 0) None january_db
        = HttpJSON []"
proof -
  have a: "Atoi ''7'' = Inr 7"
    by code_simp
  have r: "- (2 ^ 63) < 7 * ns_per_day \<and> 7 * ns_per_day < 2 ^ 63"
    by (simp add: ns_per_day_def ns_per_second_def)
  have wd: "Weekday (Date 2024 1 16 0 0 0 0) = 2"
    by code_simp
  have monday: "startOfWeek (Date 2024 1 16 0 0 0 0) = Date 2024 1 15 0 0 0 0"
    by code_simp
  have cutoff: "Date 2024 1 16 0 0 0 0 - 7 * ns_per_day = Date 2024 1 9 0 0 0 0"
    by code_simp
  have seven: "handleNewProjects ''GET'' ''7d'' (Date 2024 1 16 0 0 0 0) None january_db
        = HttpJSON [jan15_row]"
    by code_simp
  have week: "handleNewProjects ''GET'' ''thisweek'' (Date 2024 1 16 0 0 0 0) None january_db
        = HttpJSON []"
    by code_simp
  note general = new_projects_window [of "Date 2024 1 16 0 0 0 0" january_db "''7''" 7]
  have g1: "\<exists>ps. handleNewProjects ''GET'' ''7d'' (Date 2024 1 16 0 0 0 0) None january_db
              = HttpJSON ps
           \<and> set ps = adopted_strictly_after (Date 2024 1 9 0 0 0 0) january_db"
    using general a r by (simp add: cutoff)
  have g2: "\<exists>ps. handleNewProjects ''GET'' ''thisweek'' (Date 2024 1 16 0 0 0 0) None january_db
              = HttpJSON ps
           \<and> set ps = adopted_strictly_after (Date 2024 1 15 0 0 0 0) january_db"
    using general by (simp add: monday)
  show ?thesis
    using a r wd monday cutoff g1 seven g2 week by blast
qed

theorem new_projects_window_counterexample:
  "Atoi ''200000'' = Inr 200000
   \<and> AdoptedAt jan15_row = Some (Date 2024 1 15 0 0 0 0)
   \<and> Date 2024 1 16 0 0 0 0 - 200000 * ns_per_day < Date 2024 1 15 0 0 0 0
   \<and> handleNewProjects ''GET'' ''200000d'' (Date 2024 1 16 0 0 0 0) None january_db
        = HttpJSON []
   \<and> AdoptedAt future_row = Some (Date 2024 1 17 0 0 0 0)
   \<and> Date 2024 1 16 0 0 0 0 < Date 2024 1 17 0 0 0 0
   \<and> handleNewProjects ''GET'' ''thisweek'' (Date 2024 1 16 0 0 0 0) None
        (empty_db\<lparr> projects := [future_row] \<rparr>) = HttpJSON [future_row]"
proof -
  have "Atoi ''200000'' = Inr 200000"
    by code_simp
  moreover have "AdoptedAt jan15_row = Some (Date 2024 1 15 0 0 0 0)"
    by (simp add: jan15_row_def)
  moreover have "Date 2024 1 16 0 0 0 0 - 200000 * ns_per_day < Date 2024 1 15 0 0 0 0"
    by code_simp
  moreover have "handleNewProjects ''GET'' ''200000d'' (Date 2024 1 16 0 0 0 0) None january_db
        = HttpJSON []"
    by code_simp
  moreover have "AdoptedAt future_row = Some (Date 2024 1 17 0 0 0 0)"
    by (simp add: future_row_def)
  moreover have "Date 2024 1 16 0 0 0 0 < Date 2024 1 17 0 0 0 0"
    by code_simp
  moreover have "handleNewProjects ''GET'' ''thisweek'' (Date 2024 1 16 0 0 0 0) None
        (empty_db\<lparr> projects := [future_row] \<rparr>) = HttpJSON [future_row]"
    by code_simp
  ultimately show ?thesis
    by blast
qed

end
